theory Spec2Isabelle
  imports Main
begin

section \<open>Strings\<close>

text \<open>
  Source strings are sequences of UTF-16 code units. A \<open>char\<close> of the model is one code
  unit below 256 (the Latin-1 range), so a \<open>string\<close> is a source string all of whose code
  units are below 256; strings with other code units are outside the model. On these strings
  the helpers below are the JavaScript string methods the store uses: \<open>trim\<close>,
  \<open>toLowerCase\<close>, \<open>includes\<close> and \<open>split('@')[0]\<close>.

  The white space that \<open>trim\<close> strips is, below 256: tab, line feed, vertical tab, form
  feed, carriage return, space and the no-break space U+00A0.
\<close>

definition is_space :: "char \<Rightarrow> bool" where
  "is_space c =
     (c \<in> set [CHR '' '', CHR 0x09, CHR 0x0A, CHR 0x0B, CHR 0x0C, CHR 0x0D, CHR 0xA0])"

definition trim :: "string \<Rightarrow> string" where
  "trim s = rev (dropWhile is_space (rev (dropWhile is_space s)))"

text \<open>
  The letters that \<open>toLowerCase\<close> changes are, below 256: \<open>A\<close> to \<open>Z\<close>, U+00C0 to
  U+00D6 and U+00D8 to U+00DE; each moves up by 32.
\<close>

definition is_upper :: "nat \<Rightarrow> bool" where
  "is_upper n = ((65 \<le> n \<and> n \<le> 90) \<or> (192 \<le> n \<and> n \<le> 214) \<or> (216 \<le> n \<and> n \<le> 222))"

definition lower_char :: "char \<Rightarrow> char" where
  "lower_char c =
     (if is_upper (of_char c) then char_of (of_char c + (32 :: nat)) else c)"

definition toLowerCase :: "string \<Rightarrow> string" where
  "toLowerCase s = map lower_char s"

fun includes_str :: "string \<Rightarrow> string \<Rightarrow> bool" where
  "includes_str [] sub = (sub = [])"
| "includes_str (c # cs) sub = (take (length sub) (c # cs) = sub \<or> includes_str cs sub)"

text \<open>\<open>s.split('@')[0]\<close>: the part of \<open>s\<close> before its first \<open>@\<close>, all of \<open>s\<close> without one.\<close>

definition split_at_first :: "string \<Rightarrow> string" where
  "split_at_first s = takeWhile (\<lambda>c. c \<noteq> CHR ''@'') s"

section \<open>Data model of the auth store\<close>

text \<open>
  The session user of the backend client. \<open>email\<close> is optional in the client's type
  (the source writes \<open>user.email!\<close>), and \<open>user_metadata?.name\<close> may be absent.
\<close>

record user =
  user_id :: string
  user_email :: "string option"
  user_metadata_name :: "string option"

text \<open>
  Modelled from the spec: the \<open>Profile\<close> type is declared in \<open>lib/supabase\<close>, which is
  not among the sources; the spec gives it as
  \<open>{id, email, name, avatar_url?, created_at}\<close>.
\<close>

record profile =
  profile_id :: string
  profile_email :: string
  profile_name :: string
  profile_avatar_url :: "string option"
  profile_created_at :: string

text \<open>The four data fields of \<open>AuthState\<close>.\<close>

record store =
  user :: "user option"
  profile :: "profile option"
  isLoading :: bool
  error :: "string option"

datatype auth_error = AuthError (auth_message: string)

datatype pg_error = PostgrestError (pg_code: string) (pg_message: string)

text \<open>
  A value thrown inside an operation or the rejection of an awaited promise. It is taken to
  be an object, as the errors of the client and \<open>new Error(...)\<close> are; the handlers only
  read its \<open>message\<close>, which may be undefined.
\<close>

datatype thrown = Thrown (thrown_message: "string option")

text \<open>The \<open>{data, error}\<close> answers of the client.\<close>

record auth_response =
  data_user :: "user option"
  auth_err :: "auth_error option"

record select_response =
  sel_data :: "profile option"
  sel_err :: "pg_error option"

section \<open>The backend client\<close>

text \<open>
  The client is external. It is a parameter of the model: a record of answer functions over
  a backend world \<open>'w\<close>. Every awaited call either rejects (\<open>Inl\<close>) or resolves
  (\<open>Inr\<close>) and moves the world on. Each call the store makes is also appended to a log,
  so that "how many inserts" is a statement about the log. The one-second timer of
  \<open>signup\<close> is logged as \<open>Delay\<close>; what the backend did meanwhile shows in its
  later answers.
\<close>

datatype call =
    SignInWithPassword string string
  | GetUser
  | SignUp string string string
  | SignOut
  | SelectProfile string
  | InsertProfile string "string option" string
  | Delay nat

record 'w backend =
  signInWithPassword :: "string \<Rightarrow> string \<Rightarrow> 'w \<Rightarrow> (thrown + auth_response) \<times> 'w"
  getUser :: "'w \<Rightarrow> (thrown + user option) \<times> 'w"
  signUp :: "string \<Rightarrow> string \<Rightarrow> string \<Rightarrow> 'w \<Rightarrow> (thrown + auth_response) \<times> 'w"
  signOut :: "'w \<Rightarrow> (thrown + auth_error option) \<times> 'w"
  selectProfile :: "string \<Rightarrow> 'w \<Rightarrow> (thrown + select_response) \<times> 'w"
  insertProfile :: "string \<Rightarrow> string option \<Rightarrow> string \<Rightarrow> 'w \<Rightarrow> (thrown + pg_error option) \<times> 'w"

text \<open>The whole system: the store, the backend world and the log of calls.\<close>

record 'w sys =
  st :: store
  world :: 'w
  calls :: "call list"

definition await :: "call \<Rightarrow> ('w \<Rightarrow> 'r \<times> 'w) \<Rightarrow> 'w sys \<Rightarrow> 'r \<times> 'w sys" where
  "await c f s =
     (case f (world s) of (r, w') \<Rightarrow> (r, s\<lparr>world := w', calls := calls s @ [c]\<rparr>))"

text \<open>\<open>set({...})\<close> of the store: the update \<open>f\<close> writes the fields named in the call.\<close>

definition set_store :: "(store \<Rightarrow> store) \<Rightarrow> 'w sys \<Rightarrow> 'w sys" where
  "set_store f s = s\<lparr>st := f (st s)\<rparr>"

text \<open>\<open>error.message || fallback\<close>: an undefined or empty message gives the fallback.\<close>

definition message_or :: "thrown \<Rightarrow> string \<Rightarrow> string" where
  "message_or ex fallback =
     (case thrown_message ex of
        None \<Rightarrow> fallback
      | Some m \<Rightarrow> if m = [] then fallback else m)"

section \<open>fetchProfile\<close>

text \<open>
  \<open>user.user_metadata?.name || user.email!.split('@')[0]\<close>. A non-empty metadata name
  is taken as it is. Otherwise the email is split, which throws a TypeError when the email
  is undefined (\<open>None\<close> here).
\<close>

definition insert_name :: "user \<Rightarrow> string option" where
  "insert_name u =
     (case user_metadata_name u of
        Some n \<Rightarrow> if n \<noteq> [] then Some n else map_option split_at_first (user_email u)
      | None \<Rightarrow> map_option split_at_first (user_email u))"

text \<open>
  The \<open>try\<close> block of \<open>fetchProfile\<close> from the point where the first query has been
  answered: \<open>u\<close> is the user read from the store before the query and \<open>r\<close> the answer.
  The first component of the result is the value thrown out of the block, if any.
\<close>

definition fetchProfile_after_select ::
  "'w backend \<Rightarrow> user \<Rightarrow> thrown + select_response \<Rightarrow> 'w sys \<Rightarrow> thrown option \<times> 'w sys" where
  "fetchProfile_after_select B u r s1 =
     (case r of
        Inl ex \<Rightarrow> (Some ex, s1)
      | Inr res \<Rightarrow>
          (case sel_err res of
             Some e \<Rightarrow>
               if pg_code e = ''PGRST116'' then
                 (case insert_name u of
                    None \<Rightarrow> (Some (Thrown (Some ''TypeError'')), s1)
                  | Some nm \<Rightarrow>
                      (case await (InsertProfile (user_id u) (user_email u) nm)
                                  (insertProfile B (user_id u) (user_email u) nm) s1 of
                         (Inl ex, s2) \<Rightarrow> (Some ex, s2)
                       | (Inr (Some createError), s2) \<Rightarrow> (None, s2)
                       | (Inr None, s2) \<Rightarrow>
                           (case await (SelectProfile (user_id u))
                                       (selectProfile B (user_id u)) s2 of
                              (Inl ex, s3) \<Rightarrow> (Some ex, s3)
                            | (Inr res', s3) \<Rightarrow>
                                (case sel_data res' of
                                   Some newProfile \<Rightarrow>
                                     (None, set_store (\<lambda>t. t\<lparr>profile := Some newProfile\<rparr>) s3)
                                 | None \<Rightarrow> (None, s3)))))
               else (Some (Thrown (Some (pg_message e))), s1)
           | None \<Rightarrow> (None, set_store (\<lambda>t. t\<lparr>profile := sel_data res\<rparr>) s1)))"

text \<open>
  The whole \<open>try\<close> block of \<open>fetchProfile\<close> for the user \<open>u\<close> read from the store: the
  query, and what follows its answer.
\<close>

definition fetchProfile_try :: "'w backend \<Rightarrow> user \<Rightarrow> 'w sys \<Rightarrow> thrown option \<times> 'w sys" where
  "fetchProfile_try B u s =
     (case await (SelectProfile (user_id u)) (selectProfile B (user_id u)) s of
        (r, s1) \<Rightarrow> fetchProfile_after_select B u r s1)"

text \<open>
  \<open>fetchProfile\<close>: nothing without a user; otherwise the \<open>try\<close> block, whose \<open>catch\<close>
  only logs to the console. The first component is the rejection of the returned promise.
\<close>

definition fetchProfile :: "'w backend \<Rightarrow> 'w sys \<Rightarrow> thrown option \<times> 'w sys" where
  "fetchProfile B s =
     (case user (st s) of
        None \<Rightarrow> (None, s)
      | Some u \<Rightarrow>
          (case fetchProfile_try B u s of
             (Some ex, s') \<Rightarrow> (None, s')
           | (None, s') \<Rightarrow> (None, s')))"

section \<open>login, signup, logout, clearError\<close>

text \<open>
  The tail shared by both successful branches of \<open>login\<close>:
  \<open>set({ user }); await get().fetchProfile();\<close>. A rejection of \<open>fetchProfile\<close>
  would leave the \<open>try\<close> block here.
\<close>

definition store_user_and_fetch :: "'w backend \<Rightarrow> user \<Rightarrow> 'w sys \<Rightarrow> thrown option \<times> 'w sys" where
  "store_user_and_fetch B u s = fetchProfile B (set_store (\<lambda>t. t\<lparr>user := Some u\<rparr>) s)"

definition login_try :: "'w backend \<Rightarrow> string \<Rightarrow> string \<Rightarrow> 'w sys \<Rightarrow> thrown option \<times> 'w sys" where
  "login_try B email password s =
     (case await (SignInWithPassword (toLowerCase (trim email)) password)
                 (signInWithPassword B (toLowerCase (trim email)) password) s of
        (Inl ex, s1) \<Rightarrow> (Some ex, s1)
      | (Inr res, s1) \<Rightarrow>
          (case auth_err res of
             Some e \<Rightarrow>
               if includes_str (auth_message e) ''Email not confirmed'' then
                 (case await GetUser (getUser B) s1 of
                    (Inl ex, s2) \<Rightarrow> (Some ex, s2)
                  | (Inr (Some u), s2) \<Rightarrow>
                      (case store_user_and_fetch B u s2 of
                         (Some ex, s3) \<Rightarrow> (Some ex, s3)
                       | (None, s3) \<Rightarrow> (None, set_store (\<lambda>t. t\<lparr>isLoading := False\<rparr>) s3))
                  | (Inr None, s2) \<Rightarrow> (Some (Thrown (Some (auth_message e))), s2))
               else (Some (Thrown (Some (auth_message e))), s1)
           | None \<Rightarrow>
               (case data_user res of
                  Some u \<Rightarrow>
                    (case store_user_and_fetch B u s1 of
                       (Some ex, s2) \<Rightarrow> (Some ex, s2)
                     | (None, s2) \<Rightarrow> (None, set_store (\<lambda>t. t\<lparr>isLoading := False\<rparr>) s2))
                | None \<Rightarrow> (None, set_store (\<lambda>t. t\<lparr>isLoading := False\<rparr>) s1))))"

text \<open>The \<open>catch\<close> of \<open>login\<close> and \<open>signup\<close>: the message goes to \<open>error\<close>.\<close>

definition catch_to_error :: "string \<Rightarrow> thrown option \<times> 'w sys \<Rightarrow> thrown option \<times> 'w sys" where
  "catch_to_error fallback r =
     (case r of
        (None, s) \<Rightarrow> (None, s)
      | (Some ex, s) \<Rightarrow>
          (None, set_store (\<lambda>t. t\<lparr>error := Some (message_or ex fallback), isLoading := False\<rparr>) s))"

definition login :: "'w backend \<Rightarrow> string \<Rightarrow> string \<Rightarrow> 'w sys \<Rightarrow> thrown option \<times> 'w sys" where
  "login B email password s =
     catch_to_error ''Login failed. Please check your credentials.''
       (login_try B email password (set_store (\<lambda>t. t\<lparr>isLoading := True, error := None\<rparr>) s))"

text \<open>
  The inner \<open>try\<close>/\<open>catch\<close> of \<open>signup\<close> around the first \<open>fetchProfile\<close>: when that
  call rejects, the profile is inserted by hand and fetched again.
\<close>

definition signup_profile :: "'w backend \<Rightarrow> user \<Rightarrow> string \<Rightarrow> 'w sys \<Rightarrow> thrown option \<times> 'w sys" where
  "signup_profile B u name s =
     (case fetchProfile B s of
        (None, s1) \<Rightarrow> (None, s1)
      | (Some profileError, s1) \<Rightarrow>
          (case await (InsertProfile (user_id u) (user_email u) (trim name))
                      (insertProfile B (user_id u) (user_email u) (trim name)) s1 of
             (Inl ex, s2) \<Rightarrow> (Some ex, s2)
           | (Inr (Some profileCreateError), s2) \<Rightarrow> (None, s2)
           | (Inr None, s2) \<Rightarrow> fetchProfile B s2))"

definition signup_try :: "'w backend \<Rightarrow> string \<Rightarrow> string \<Rightarrow> string \<Rightarrow> 'w sys \<Rightarrow> thrown option \<times> 'w sys" where
  "signup_try B name email password s =
     (if trim name = [] then (Some (Thrown (Some ''Name is required'')), s)
      else if trim email = [] then (Some (Thrown (Some ''Email is required'')), s)
      else if length password < 6 then
        (Some (Thrown (Some ''Password must be at least 6 characters'')), s)
      else
        (case await (SignUp (toLowerCase (trim email)) password (trim name))
                    (signUp B (toLowerCase (trim email)) password (trim name)) s of
           (Inl ex, s1) \<Rightarrow> (Some ex, s1)
         | (Inr res, s1) \<Rightarrow>
             (case auth_err res of
                Some e \<Rightarrow> (Some (Thrown (Some (auth_message e))), s1)
              | None \<Rightarrow>
                  (case data_user res of
                     Some u \<Rightarrow>
                       (case await (Delay 1000) (\<lambda>w. ((), w))
                                   (set_store (\<lambda>t. t\<lparr>user := Some u\<rparr>) s1) of
                          (_, s2) \<Rightarrow>
                            (case signup_profile B u name s2 of
                               (Some ex, s3) \<Rightarrow> (Some ex, s3)
                             | (None, s3) \<Rightarrow>
                                 (None, set_store (\<lambda>t. t\<lparr>isLoading := False\<rparr>) s3)))
                   | None \<Rightarrow> (None, set_store (\<lambda>t. t\<lparr>isLoading := False\<rparr>) s1)))))"

definition signup :: "'w backend \<Rightarrow> string \<Rightarrow> string \<Rightarrow> string \<Rightarrow> 'w sys \<Rightarrow> thrown option \<times> 'w sys" where
  "signup B name email password s =
     catch_to_error ''Signup failed. Please try again.''
       (signup_try B name email password (set_store (\<lambda>t. t\<lparr>isLoading := True, error := None\<rparr>) s))"

text \<open>
  \<open>logout\<close> awaits \<open>signOut\<close> and does not look at what it resolves with: only a
  rejection reaches the \<open>catch\<close>.
\<close>

definition logout :: "'w backend \<Rightarrow> 'w sys \<Rightarrow> thrown option \<times> 'w sys" where
  "logout B s =
     (case await SignOut (signOut B) s of
        (Inr res, s1) \<Rightarrow>
          (None, set_store (\<lambda>t. t\<lparr>user := None, profile := None, error := None\<rparr>) s1)
      | (Inl ex, s1) \<Rightarrow>
          (None, set_store (\<lambda>t. t\<lparr>error := Some (message_or ex ''Logout failed'')\<rparr>) s1))"

definition clearError :: "'w sys \<Rightarrow> 'w sys" where
  "clearError s = set_store (\<lambda>t. t\<lparr>error := None\<rparr>) s"

section \<open>The auth-change listener\<close>

text \<open>
  The callback of \<open>onAuthStateChange\<close>; its second argument is \<open>session?.user\<close>.
\<close>

definition onAuthStateChange :: "'w backend \<Rightarrow> string \<Rightarrow> user option \<Rightarrow> 'w sys \<Rightarrow> thrown option \<times> 'w sys" where
  "onAuthStateChange B event session_user s =
     (case (if event = ''SIGNED_IN'' then session_user else None) of
        Some u \<Rightarrow> fetchProfile B (set_store (\<lambda>t. t\<lparr>user := Some u\<rparr>) s)
      | None \<Rightarrow>
          if event = ''SIGNED_OUT''
          then (None, set_store (\<lambda>t. t\<lparr>user := None, profile := None\<rparr>) s)
          else (None, s))"

text \<open>The store as created: \<open>user: null, profile: null, isLoading: false, error: null\<close>.\<close>

definition initial_store :: store where
  "initial_store = \<lparr>user = None, profile = None, isLoading = False, error = None\<rparr>"

definition initial_sys :: "'w \<Rightarrow> 'w sys" where
  "initial_sys w = \<lparr>st = initial_store, world = w, calls = []\<rparr>"

text \<open>
  Sequential runs of the store: each operation runs to completion before the next one
  starts. The source suspends an operation at each \<open>await\<close>, and other operations and the
  listener may write to the store meanwhile; runs of that kind are modelled further below.
\<close>

datatype action =
    Login string string
  | Signup string string string
  | Logout
  | FetchProfile
  | ClearError
  | AuthChange string "user option"

fun run_action :: "'w backend \<Rightarrow> action \<Rightarrow> 'w sys \<Rightarrow> 'w sys" where
  "run_action B (Login email password) s = snd (login B email password s)"
| "run_action B (Signup name email password) s = snd (signup B name email password s)"
| "run_action B Logout s = snd (logout B s)"
| "run_action B FetchProfile s = snd (fetchProfile B s)"
| "run_action B ClearError s = clearError s"
| "run_action B (AuthChange event session_user) s = snd (onAuthStateChange B event session_user s)"

fun run_actions :: "'w backend \<Rightarrow> action list \<Rightarrow> 'w sys \<Rightarrow> 'w sys" where
  "run_actions B [] s = s"
| "run_actions B (a # as) s = run_actions B as (run_action B a s)"

text \<open>
  Interleaved runs. A call of \<open>fetchProfile\<close> reads \<open>user\<close> from the store, sends its
  query and is suspended at the \<open>await\<close>; when the answer arrives it goes on with the user
  it read at the start, on the store as it is by then. A suspended call is the pair of that
  user and the answer on its way. \<open>Start_fetchProfile\<close> runs a call up to its first
  \<open>await\<close>, \<open>Finish_fetchProfile\<close> resumes the oldest suspended call and runs it to its
  end (its \<open>catch\<close> only logs), and \<open>Complete\<close> runs a whole operation in between. Only
  the first \<open>await\<close> of \<open>fetchProfile\<close> is a suspension point here, so every interleaved
  run is a run of the source, and not the other way round.
\<close>

type_synonym pending_fetch = "user \<times> (thrown + select_response)"

datatype step = Complete action | Start_fetchProfile | Finish_fetchProfile

fun run_step :: "'w backend \<Rightarrow> step \<Rightarrow> 'w sys \<times> pending_fetch list \<Rightarrow> 'w sys \<times> pending_fetch list" where
  "run_step B (Complete a) (s, pend) = (run_action B a s, pend)"
| "run_step B Start_fetchProfile (s, pend) =
     (case user (st s) of
        None \<Rightarrow> (s, pend)
      | Some u \<Rightarrow>
          (case await (SelectProfile (user_id u)) (selectProfile B (user_id u)) s of
             (r, s1) \<Rightarrow> (s1, pend @ [(u, r)])))"
| "run_step B Finish_fetchProfile (s, pend) =
     (case pend of
        [] \<Rightarrow> (s, pend)
      | (u, r) # rest \<Rightarrow> (snd (fetchProfile_after_select B u r s), rest))"

fun run_steps :: "'w backend \<Rightarrow> step list \<Rightarrow> 'w sys \<times> pending_fetch list \<Rightarrow> 'w sys \<times> pending_fetch list" where
  "run_steps B [] c = c"
| "run_steps B (x # xs) c = run_steps B xs (run_step B x c)"


section \<open>The team roster\<close>

record TeamMember =
  tm_id :: string
  tm_name :: string
  tm_email :: string
  tm_avatar_url :: "string option"
  tm_role :: string
  tm_joined_at :: string
  tm_last_active :: "string option"

text \<open>
  A row of the \<open>project_members\<close> query: \<open>role\<close>, \<open>created_at\<close> and the joined profile
  \<open>user\<close>, which may be null. The joined \<open>project\<close> is not read by the code.
\<close>

record row_user =
  ru_id :: string
  ru_name :: string
  ru_email :: string
  ru_avatar_url :: "string option"

record member_row =
  pm_role :: string
  pm_created_at :: string
  pm_user :: "row_user option"

text \<open>
  A JavaScript \<open>Map\<close> keeps its keys in the order of their first insertion, and
  \<open>values()\<close> lists them in that order: an association list with distinct keys, where
  \<open>set\<close> on a key already present replaces the value in place.
\<close>

type_synonym members_map = "(string \<times> TeamMember) list"

fun map_set :: "string \<Rightarrow> TeamMember \<Rightarrow> members_map \<Rightarrow> members_map" where
  "map_set k v [] = [(k, v)]"
| "map_set k v ((k', v') # m) = (if k' = k then (k, v) # m else (k', v') # map_set k v m)"

definition map_get :: "members_map \<Rightarrow> string \<Rightarrow> TeamMember option" where
  "map_get m k = map_of m k"

definition map_values :: "members_map \<Rightarrow> TeamMember list" where
  "map_values m = map snd m"

definition current_user_member :: "user \<Rightarrow> profile \<Rightarrow> TeamMember" where
  "current_user_member u p =
     \<lparr>tm_id = user_id u, tm_name = profile_name p, tm_email = profile_email p,
      tm_avatar_url = profile_avatar_url p, tm_role = ''owner'',
      tm_joined_at = profile_created_at p, tm_last_active = Some ''now''\<rparr>"

text \<open>
  \<open>Math.random() > 0.5\<close> is an input of the model: \<open>rnd n\<close> is the outcome of the
  \<open>n\<close>-th draw, and the loop counts the draws it has made.
\<close>

definition row_member :: "member_row \<Rightarrow> row_user \<Rightarrow> bool \<Rightarrow> TeamMember" where
  "row_member pm ru coin =
     \<lparr>tm_id = ru_id ru, tm_name = ru_name ru, tm_email = ru_email ru,
      tm_avatar_url = ru_avatar_url ru, tm_role = pm_role pm,
      tm_joined_at = pm_created_at pm,
      tm_last_active = Some (if coin then ''online'' else ''2 hours ago'')\<rparr>"

text \<open>The body of the \<open>forEach\<close> callback.\<close>

definition add_row :: "user \<Rightarrow> (nat \<Rightarrow> bool) \<Rightarrow> members_map \<times> nat \<Rightarrow> member_row \<Rightarrow> members_map \<times> nat" where
  "add_row u rnd acc pm =
     (case acc of (m, n) \<Rightarrow>
        (case pm_user pm of
           None \<Rightarrow> (m, n)
         | Some ru \<Rightarrow>
             if ru_id ru \<noteq> user_id u then
               (if map_get m (ru_id ru) = None \<or> pm_role pm = ''owner'' \<or> pm_role pm = ''admin''
                then (map_set (ru_id ru) (row_member pm ru (rnd n)) m, Suc n)
                else (m, n))
             else (m, n)))"

definition initial_members :: "user \<Rightarrow> profile option \<Rightarrow> members_map" where
  "initial_members u prof =
     (case prof of
        Some p \<Rightarrow> map_set (user_id u) (current_user_member u p) []
      | None \<Rightarrow> [])"

text \<open>
  The roster handed to \<open>setTeamMembers\<close>: \<open>rows\<close> is the query's \<open>data\<close>, and
  \<open>projectMembers?.forEach\<close> does nothing when it is null.
\<close>

definition build_members :: "user \<Rightarrow> profile option \<Rightarrow> member_row list option \<Rightarrow> (nat \<Rightarrow> bool) \<Rightarrow> members_map" where
  "build_members u prof rows rnd =
     (case rows of
        None \<Rightarrow> initial_members u prof
      | Some pms \<Rightarrow> fst (foldl (add_row u rnd) (initial_members u prof, 0) pms))"

definition roster :: "user \<Rightarrow> profile option \<Rightarrow> member_row list option \<Rightarrow> (nat \<Rightarrow> bool) \<Rightarrow> TeamMember list" where
  "roster u prof rows rnd = map_values (build_members u prof rows rnd)"

text \<open>
  \<open>fetchTeamMembers\<close> on the component state \<open>(teamMembers, isLoading)\<close>, given the
  store's \<open>user\<close> and \<open>profile\<close> and the outcome of the awaited query.
\<close>

record query_response =
  q_data :: "member_row list option"
  q_err :: "pg_error option"

definition fetchTeamMembers ::
  "user option \<Rightarrow> profile option \<Rightarrow> (thrown + query_response) \<Rightarrow> (nat \<Rightarrow> bool) \<Rightarrow>
   TeamMember list \<times> bool \<Rightarrow> TeamMember list \<times> bool" where
  "fetchTeamMembers usr prof answer rnd cs =
     (case usr of
        None \<Rightarrow> cs
      | Some u \<Rightarrow>
          (case answer of
             Inl ex \<Rightarrow> (fst cs, False)
           | Inr res \<Rightarrow>
               (case q_err res of
                  Some e \<Rightarrow> (fst cs, False)
                | None \<Rightarrow> (roster u prof (q_data res) rnd, False))))"

section \<open>Concrete backends\<close>

text \<open>
  A small backend to run the store against. Its world is the \<open>profiles\<close> table. It knows
  one account, with password \<open>secret1\<close>; a select of a missing row answers with the
  no-rows code, and an insert stores the row it is given.
\<close>

type_synonym profiles_table = "(string \<times> profile) list"

definition account_user :: "string \<Rightarrow> string option \<Rightarrow> user" where
  "account_user email nm = \<lparr>user_id = ''u1'', user_email = Some email, user_metadata_name = nm\<rparr>"

definition table_select :: "string \<Rightarrow> profiles_table \<Rightarrow> (thrown + select_response) \<times> profiles_table" where
  "table_select i w =
     (case map_of w i of
        Some p \<Rightarrow> (Inr \<lparr>sel_data = Some p, sel_err = None\<rparr>, w)
      | None \<Rightarrow>
          (Inr \<lparr>sel_data = None, sel_err = Some (PostgrestError ''PGRST116'' ''no rows'')\<rparr>, w))"

definition table_insert ::
  "string \<Rightarrow> string option \<Rightarrow> string \<Rightarrow> profiles_table \<Rightarrow> (thrown + pg_error option) \<times> profiles_table" where
  "table_insert i email nm w =
     (case email of
        None \<Rightarrow> (Inr (Some (PostgrestError ''23502'' ''null value in column email'')), w)
      | Some e \<Rightarrow>
          if map_of w i \<noteq> None
          then (Inr (Some (PostgrestError ''23505'' ''duplicate key'')), w)
          else (Inr None,
                w @ [(i, \<lparr>profile_id = i, profile_email = e, profile_name = nm,
                          profile_avatar_url = None, profile_created_at = ''t0''\<rparr>)]))"

definition table_backend :: "profiles_table backend" where
  "table_backend =
     \<lparr>signInWithPassword = (\<lambda>email password w.
         if password = ''secret1''
         then (Inr \<lparr>data_user = Some (account_user email None), auth_err = None\<rparr>, w)
         else (Inr \<lparr>data_user = None,
                    auth_err = Some (AuthError ''Invalid login credentials'')\<rparr>, w)),
      getUser = (\<lambda>w. (Inr (Some (account_user ''jane@x.com'' None)), w)),
      signUp = (\<lambda>email password nm w.
         (Inr \<lparr>data_user = Some (account_user email (Some nm)), auth_err = None\<rparr>, w)),
      signOut = (\<lambda>w. (Inr None, w)),
      selectProfile = table_select,
      insertProfile = table_insert\<rparr>"

text \<open>The same backend with an account whose email is not confirmed yet.\<close>

definition unconfirmed_backend :: "profiles_table backend" where
  "unconfirmed_backend =
     table_backend\<lparr>signInWithPassword := (\<lambda>email password w.
       (Inr \<lparr>data_user = None, auth_err = Some (AuthError ''Email not confirmed'')\<rparr>, w))\<rparr>"

text \<open>The same backend refusing every insert into \<open>profiles\<close>.\<close>

definition readonly_backend :: "profiles_table backend" where
  "readonly_backend =
     table_backend\<lparr>insertProfile := (\<lambda>i email nm w.
       (Inr (Some (PostgrestError ''42501'' ''permission denied'')), w))\<rparr>"

text \<open>The same backend whose \<open>profiles\<close> query fails with an error other than no-rows.\<close>

definition unreadable_backend :: "profiles_table backend" where
  "unreadable_backend =
     table_backend\<lparr>selectProfile := (\<lambda>i w.
       (Inr \<lparr>sel_data = None, sel_err = Some (PostgrestError ''42501'' ''permission denied'')\<rparr>, w))\<rparr>"

text \<open>The same backend whose sign-in resolves with neither a user nor an error.\<close>

definition answerless_backend :: "profiles_table backend" where
  "answerless_backend =
     table_backend\<lparr>signInWithPassword := (\<lambda>email password w.
       (Inr \<lparr>data_user = None, auth_err = None\<rparr>, w))\<rparr>"

text \<open>The same backend whose sign-out resolves with an error.\<close>

definition signout_error_backend :: "profiles_table backend" where
  "signout_error_backend =
     table_backend\<lparr>signOut := (\<lambda>w. (Inr (Some (AuthError ''Network request failed'')), w))\<rparr>"

text \<open>The same backend whose sign-out promise rejects.\<close>

definition signout_reject_backend :: "profiles_table backend" where
  "signout_reject_backend =
     table_backend\<lparr>signOut := (\<lambda>w. (Inl (Thrown (Some ''Failed to fetch'')), w))\<rparr>"

definition jane :: user where
  "jane = account_user ''jane@x.com'' None"

definition jane_profile :: profile where
  "jane_profile =
     \<lparr>profile_id = ''u1'', profile_email = ''jane@x.com'', profile_name = ''jane'',
      profile_avatar_url = None, profile_created_at = ''t0''\<rparr>"

text \<open>A store in which Jane is signed in and her profile is loaded.\<close>

definition signed_in :: "profiles_table sys" where
  "signed_in =
     \<lparr>st = \<lparr>user = Some jane, profile = Some jane_profile, isLoading = False, error = None\<rparr>,
      world = [(''u1'', jane_profile)], calls = []\<rparr>"

text \<open>Jane signed in, her profile not loaded yet and no row for her in the table.\<close>

definition fresh_session :: "profiles_table sys" where
  "fresh_session =
     \<lparr>st = \<lparr>user = Some jane, profile = None, isLoading = False, error = None\<rparr>,
      world = [], calls = []\<rparr>"

text \<open>A good login followed by one with a wrong password.\<close>

definition relogin_wrong_password :: "profiles_table sys" where
  "relogin_wrong_password =
     run_actions table_backend
       [Login ''jane@x.com'' ''secret1'', Login ''jane@x.com'' ''hunter2''] (initial_sys [])"


section \<open>What login should end with\<close>

text \<open>
  The definitions of this section are not taken from the source: they say in the words of
  the specification how \<open>login\<close> should end, given what the backend answers.

  The failure message: the message of the error, and a fixed text when the error has no
  message or an empty one.
\<close>

definition login_error_text :: "string option \<Rightarrow> string" where
  "login_error_text m =
     (case m of
        None \<Rightarrow> ''Login failed. Please check your credentials.''
      | Some t \<Rightarrow> if t = [] then ''Login failed. Please check your credentials.'' else t)"

text \<open>
  The ending the answers call for. The sign-in may reject, resolve with an error, or resolve
  without one; an error saying \<open>Email not confirmed\<close> is passed over when the current
  user can be fetched. \<open>sign_in\<close> is the answer to \<open>signInWithPassword\<close> and \<open>current\<close>
  the answer to \<open>getUser\<close>.
\<close>

datatype login_outcome = Failed string | Signed_in user | No_answer

definition expected_login_outcome ::
  "thrown + auth_response \<Rightarrow> thrown + user option \<Rightarrow> login_outcome" where
  "expected_login_outcome sign_in current =
     (case sign_in of
        Inl ex \<Rightarrow> Failed (login_error_text (thrown_message ex))
      | Inr res \<Rightarrow>
          (case auth_err res of
             None \<Rightarrow> (case data_user res of Some u \<Rightarrow> Signed_in u | None \<Rightarrow> No_answer)
           | Some e \<Rightarrow>
               if includes_str (auth_message e) ''Email not confirmed'' then
                 (case current of
                    Inl ex \<Rightarrow> Failed (login_error_text (thrown_message ex))
                  | Inr (Some u) \<Rightarrow> Signed_in u
                  | Inr None \<Rightarrow> Failed (login_error_text (Some (auth_message e))))
               else Failed (login_error_text (Some (auth_message e)))))"

section \<open>The invariant of the store\<close>


section \<open>Which membership row ends up in the roster\<close>

text \<open>
  The definitions of this section are not taken from the source: they say, without a map
  and without a loop, which row the roster should show for a member, and the loop of
  \<open>fetchTeamMembers\<close> is compared with them below.

  The rows of the query that belong to member \<open>i\<close>, in query order, each with its joined
  profile.
\<close>

fun rows_of :: "string \<Rightarrow> member_row list \<Rightarrow> (member_row \<times> row_user) list" where
  "rows_of i [] = []"
| "rows_of i (pm # pms) =
     (case pm_user pm of
        Some ru \<Rightarrow> if ru_id ru = i then (pm, ru) # rows_of i pms else rows_of i pms
      | None \<Rightarrow> rows_of i pms)"

text \<open>A row is privileged when its role is \<open>owner\<close> or \<open>admin\<close>.\<close>

definition privileged :: "member_row \<times> row_user \<Rightarrow> bool" where
  "privileged r = (pm_role (fst r) = ''owner'' \<or> pm_role (fst r) = ''admin'')"

text \<open>
  Among the rows of one member: the last privileged row if there is one, and the first row
  otherwise.
\<close>

definition winner :: "(member_row \<times> row_user) list \<Rightarrow> (member_row \<times> row_user) option" where
  "winner rs =
     (if filter privileged rs = []
      then (case rs of [] \<Rightarrow> None | r # _ \<Rightarrow> Some r)
      else Some (last (filter privileged rs)))"

definition winning_row :: "string \<Rightarrow> member_row list \<Rightarrow> (member_row \<times> row_user) option" where
  "winning_row i pms = winner (rows_of i pms)"

text \<open>
  A roster entry is that of a row when all its fields come from the row; \<open>last_active\<close> is
  one of the two mock values.
\<close>

definition same_member :: "TeamMember option \<Rightarrow> (member_row \<times> row_user) option \<Rightarrow> bool" where
  "same_member m r =
     (case (m, r) of
        (None, None) \<Rightarrow> True
      | (Some tm, Some (pm, ru)) \<Rightarrow>
          tm = row_member pm ru True \<or> tm = row_member pm ru False
      | _ \<Rightarrow> False)"

text \<open>The keys of the map are the ids of its entries.\<close>

definition keys_match :: "members_map \<Rightarrow> bool" where
  "keys_match m = list_all (\<lambda>kv. tm_id (snd kv) = fst kv) m"

text \<open>Sample data: the current user with id \<open>1\<close>, membership rows, a constant coin.\<close>

definition user_one :: user where
  "user_one = \<lparr>user_id = ''1'', user_email = Some ''one@x.com'', user_metadata_name = None\<rparr>"

definition profile_one :: profile where
  "profile_one =
     \<lparr>profile_id = ''1'', profile_email = ''one@x.com'', profile_name = ''One'',
      profile_avatar_url = None, profile_created_at = ''t0''\<rparr>"

definition membership :: "string \<Rightarrow> string \<Rightarrow> member_row" where
  "membership i role =
     \<lparr>pm_role = role, pm_created_at = ''t1'',
      pm_user = Some \<lparr>ru_id = i, ru_name = ''Member'', ru_email = ''m@x.com'',
                      ru_avatar_url = None\<rparr>\<rparr>"

definition always_online :: "nat \<Rightarrow> bool" where
  "always_online n = True"

section \<open>Basic facts about awaiting and writing the store\<close>

lemma await_st [simp]: "st (snd (await c f s)) = st s"
  by (simp add: await_def split: prod.splits)

lemma await_calls [simp]: "calls (snd (await c f s)) = calls s @ [c]"
  by (simp add: await_def split: prod.splits)

lemma await_world [simp]: "world (snd (await c f s)) = snd (f (world s))"
  by (simp add: await_def split: prod.splits)

lemma await_fst [simp]: "fst (await c f s) = fst (f (world s))"
  by (simp add: await_def split: prod.splits)

lemma await_eqD:
  "await c f s = (r, s') \<Longrightarrow>
     st s' = st s \<and> calls s' = calls s @ [c] \<and> f (world s) = (r, world s')"
  by (auto simp: await_def split: prod.splits)

lemma set_store_simps [simp]:
  "st (set_store f s) = f (st s)"
  "world (set_store f s) = world s"
  "calls (set_store f s) = calls s"
  by (simp_all add: set_store_def)

lemma fetchProfile_try_frame:
  "fetchProfile_try B u s = (t, s') \<Longrightarrow> st s' = (st s)\<lparr>profile := profile (st s')\<rparr>"
  unfolding fetchProfile_try_def fetchProfile_after_select_def
  by (auto split: prod.splits sum.splits option.splits if_splits dest!: await_eqD)

lemma fetchProfile_never_rejects: "fst (fetchProfile B s) = None"
  by (simp add: fetchProfile_def split: option.splits prod.splits)

lemma fetchProfile_frame:
  "st (snd (fetchProfile B s)) = (st s)\<lparr>profile := profile (st (snd (fetchProfile B s)))\<rparr>"
  by (auto simp: fetchProfile_def split: option.splits prod.splits dest: fetchProfile_try_frame)

lemma fetchProfile_no_user: "user (st s) = None \<Longrightarrow> fetchProfile B s = (None, s)"
  by (simp add: fetchProfile_def)

lemma fetchProfile_eqD:
  "fetchProfile B s = (t, s') \<Longrightarrow>
     t = None \<and> user (st s') = user (st s) \<and> isLoading (st s') = isLoading (st s) \<and>
     error (st s') = error (st s) \<and> (user (st s) = None \<longrightarrow> profile (st s') = profile (st s))"
proof -
  assume a: "fetchProfile B s = (t, s')"
  have t: "t = None" using fetchProfile_never_rejects [of B s] a by simp
  have f: "st s' = (st s)\<lparr>profile := profile (st s')\<rparr>"
    using fetchProfile_frame [of B s] a by simp
  have u: "user (st s') = user (st s)" by (subst f) simp
  have l: "isLoading (st s') = isLoading (st s)" by (subst f) simp
  have e: "error (st s') = error (st s)" by (subst f) simp
  have p: "user (st s) = None \<longrightarrow> profile (st s') = profile (st s)"
    using fetchProfile_no_user [of s B] a by auto
  from t u l e p show ?thesis by simp
qed

lemmas auth_defs = login_def login_try_def catch_to_error_def await_def set_store_def
  store_user_and_fetch_def fetchProfile_def fetchProfile_try_def fetchProfile_after_select_def insert_name_def
  split_at_first_def message_or_def signup_def signup_try_def signup_profile_def
  logout_def clearError_def onAuthStateChange_def initial_sys_def initial_store_def
  table_backend_def table_select_def table_insert_def account_user_def jane_def
  jane_profile_def signed_in_def

lemma trim_email [simp]: "trim ''jane@x.com'' = ''jane@x.com''"
  by (simp add: trim_def is_space_def)

lemma lower_email [simp]: "toLowerCase ''jane@x.com'' = ''jane@x.com''"
  by (simp add: toLowerCase_def lower_char_def is_upper_def)

lemma trim_name [simp]: "trim ''Jane'' = ''Jane''"
  by (simp add: trim_def is_space_def)

section \<open>What fetchProfile writes and calls\<close>

text \<open>
  C9. Whatever the backend answers (a rejected query, a query error, a missing row, a
  failed insert, a row), \<open>fetchProfile\<close> leaves the store's \<open>error\<close> field as it was.
\<close>

theorem fetchProfile_leaves_error:
  "error (st (snd (fetchProfile B s))) = error (st s)"
  using fetchProfile_eqD [of B s "fst (fetchProfile B s)" "snd (fetchProfile B s)"] by simp

text \<open>
  C4 (amended). Let \<open>fetchProfile\<close> run with a user in the store, let the profile query
  answer with the no-rows code \<open>PGRST116\<close>, and let a name be available (a non-empty
  metadata name, or else the part of the email before \<open>@\<close>). Then exactly one insert is
  attempted, with the user's id, email and that name. If the insert resolves without an
  error, exactly one re-fetch follows, and a row it returns becomes the stored profile
  (without a row the profile stays as it was). If the insert resolves with an error or
  rejects, there is no re-fetch and the stored profile is unchanged.
\<close>

theorem fetchProfile_missing_row:
  assumes "user (st s) = Some u"
    and "selectProfile B (user_id u) (world s) = (Inr res, w1)"
    and "sel_err res = Some e" and "pg_code e = ''PGRST116''"
    and "insert_name u = Some nm"
    and "insertProfile B (user_id u) (user_email u) nm w1 = (ins, w2)"
    and "selectProfile B (user_id u) w2 = (again, w3)"
  shows "case ins of
           Inr None \<Rightarrow>
             calls (snd (fetchProfile B s)) =
               calls s @ [SelectProfile (user_id u),
                          InsertProfile (user_id u) (user_email u) nm,
                          SelectProfile (user_id u)] \<and>
             profile (st (snd (fetchProfile B s))) =
               (case again of
                  Inr res' \<Rightarrow> (case sel_data res' of Some p \<Rightarrow> Some p | None \<Rightarrow> profile (st s))
                | Inl ex \<Rightarrow> profile (st s))
         | _ \<Rightarrow>
             calls (snd (fetchProfile B s)) =
               calls s @ [SelectProfile (user_id u),
                          InsertProfile (user_id u) (user_email u) nm] \<and>
             profile (st (snd (fetchProfile B s))) = profile (st s)"
  using assms
  by (simp add: fetchProfile_def fetchProfile_try_def fetchProfile_after_select_def await_def
           split: sum.splits option.splits)

text \<open>
  Without a metadata name and without an email the name cannot be formed: the query is the
  only call, and the store is left as it was.
\<close>

lemma fetchProfile_missing_row_no_name:
  assumes "user (st s) = Some u"
    and "selectProfile B (user_id u) (world s) = (Inr res, w1)"
    and "sel_err res = Some e" and "pg_code e = ''PGRST116''"
    and "insert_name u = None"
  shows "calls (snd (fetchProfile B s)) = calls s @ [SelectProfile (user_id u)] \<and>
         st (snd (fetchProfile B s)) = st s"
  using assms
  by (simp add: fetchProfile_def fetchProfile_try_def fetchProfile_after_select_def await_def)

text \<open>
  On the table backend the row that comes back is the one just inserted: id, email and the
  local part of the email as the name.
\<close>

theorem fetchProfile_missing_row_witness:
  "calls (snd (fetchProfile table_backend fresh_session)) =
     [SelectProfile ''u1'', InsertProfile ''u1'' (Some ''jane@x.com'') ''jane'',
      SelectProfile ''u1''] \<and>
   profile (st (snd (fetchProfile table_backend fresh_session))) =
     Some \<lparr>profile_id = ''u1'', profile_email = ''jane@x.com'', profile_name = ''jane'',
           profile_avatar_url = None, profile_created_at = ''t0''\<rparr>"
proof -
  let ?row = "\<lparr>profile_id = ''u1'', profile_email = ''jane@x.com'', profile_name = ''jane'',
           profile_avatar_url = None, profile_created_at = ''t0''\<rparr>"
  have h1: "user (st fresh_session) = Some jane" by (simp add: fresh_session_def)
  have h2: "selectProfile table_backend (user_id jane) (world fresh_session) =
      (Inr \<lparr>sel_data = None, sel_err = Some (PostgrestError ''PGRST116'' ''no rows'')\<rparr>, [])"
    by (simp add: table_backend_def table_select_def fresh_session_def)
  have h3: "sel_err \<lparr>sel_data = None, sel_err = Some (PostgrestError ''PGRST116'' ''no rows'')\<rparr>
      = Some (PostgrestError ''PGRST116'' ''no rows'')" by simp
  have h4: "pg_code (PostgrestError ''PGRST116'' ''no rows'') = ''PGRST116''" by simp
  have h5: "insert_name jane = Some ''jane''"
    by (simp add: insert_name_def jane_def account_user_def split_at_first_def)
  have h6: "insertProfile table_backend (user_id jane) (user_email jane) ''jane'' [] =
     (Inr None, [(''u1'', ?row)])"
    by (simp add: table_backend_def table_insert_def jane_def account_user_def)
  have h7: "selectProfile table_backend (user_id jane) [(''u1'', ?row)] =
     (Inr \<lparr>sel_data = Some ?row, sel_err = None\<rparr>, [(''u1'', ?row)])"
    by (simp add: table_backend_def table_select_def jane_def account_user_def)
  show ?thesis
    using fetchProfile_missing_row [OF h1 h2 h3 h4 h5 h6 h7]
    by (simp add: fresh_session_def jane_def account_user_def)
qed

text \<open>
  C4 as stated fails where the insert is refused: one query and one insert, no re-fetch,
  and no profile in the store.
\<close>

theorem fetchProfile_failed_insert_no_refetch:
  "calls (snd (fetchProfile readonly_backend fresh_session)) =
     [SelectProfile ''u1'', InsertProfile ''u1'' (Some ''jane@x.com'') ''jane''] \<and>
   profile (st (snd (fetchProfile readonly_backend fresh_session))) = None"
  by (simp add: fetchProfile_def fetchProfile_try_def fetchProfile_after_select_def await_def readonly_backend_def
      table_backend_def table_select_def fresh_session_def jane_def account_user_def
      insert_name_def split_at_first_def)

section \<open>The outcome of login\<close>

lemma store_user_and_fetch_eqD:
  "store_user_and_fetch B u s = (t, s') \<Longrightarrow>
     t = None \<and> user (st s') = Some u \<and> isLoading (st s') = isLoading (st s) \<and>
     error (st s') = error (st s)"
  unfolding store_user_and_fetch_def by (drule fetchProfile_eqD) simp

text \<open>
  C1 (amended). From any state of the store and against any backend, \<open>login\<close> never throws
  to its caller and ends with \<open>isLoading = false\<close>. Its final state is one of these.
  Success: \<open>error\<close> is null and \<open>user\<close> is the user the backend handed over. Failure:
  \<open>error\<close> is the failure message (the message of the rejection or of the returned
  error, the fixed text when that is empty), and \<open>user\<close> and \<open>profile\<close> are what they
  were before the call, not reset to null. And when the sign-in resolves with neither a user
  nor an error: \<open>error\<close> is null, and \<open>user\<close> and \<open>profile\<close> are what they were before
  the call.
\<close>

theorem login_terminal_state:
  assumes "signInWithPassword B (toLowerCase (trim email)) password (world s) = (sign_in, w1)"
    and "getUser B w1 = (current, w2)"
  shows "fst (login B email password s) = None \<and>
         isLoading (st (snd (login B email password s))) = False \<and>
         (case expected_login_outcome sign_in current of
            Failed m \<Rightarrow>
              error (st (snd (login B email password s))) = Some m \<and>
              user (st (snd (login B email password s))) = user (st s) \<and>
              profile (st (snd (login B email password s))) = profile (st s)
          | Signed_in u \<Rightarrow>
              error (st (snd (login B email password s))) = None \<and>
              user (st (snd (login B email password s))) = Some u
          | No_answer \<Rightarrow>
              error (st (snd (login B email password s))) = None \<and>
              user (st (snd (login B email password s))) = user (st s) \<and>
              profile (st (snd (login B email password s))) = profile (st s))"
  using assms
  unfolding login_def login_try_def catch_to_error_def expected_login_outcome_def await_def
  by (auto simp: message_or_def login_error_text_def
           split: prod.splits sum.splits option.splits if_splits
           dest!: store_user_and_fetch_eqD)

theorem login_terminal_state_witness:
  "fst (login table_backend ''jane@x.com'' ''hunter2'' (initial_sys [])) = None \<and>
   st (snd (login table_backend ''jane@x.com'' ''hunter2'' (initial_sys []))) =
     \<lparr>user = None, profile = None, isLoading = False,
      error = Some ''Invalid login credentials''\<rparr> \<and>
   fst (login table_backend ''jane@x.com'' ''secret1'' (initial_sys [])) = None \<and>
   st (snd (login table_backend ''jane@x.com'' ''secret1'' (initial_sys []))) =
     \<lparr>user = Some jane, profile = Some jane_profile, isLoading = False, error = None\<rparr>"
proof -
  have a1: "signInWithPassword table_backend (toLowerCase (trim ''jane@x.com'')) ''hunter2''
              (world (initial_sys [])) =
            (Inr \<lparr>data_user = None, auth_err = Some (AuthError ''Invalid login credentials'')\<rparr>, [])"
    by (simp add: table_backend_def initial_sys_def)
  have a2: "signInWithPassword table_backend (toLowerCase (trim ''jane@x.com'')) ''secret1''
              (world (initial_sys [])) =
            (Inr \<lparr>data_user = Some jane, auth_err = None\<rparr>, [])"
    by (simp add: table_backend_def initial_sys_def jane_def)
  have g: "getUser table_backend [] = (Inr (Some jane), [])"
    by (simp add: table_backend_def jane_def)
  show ?thesis
    using login_terminal_state [OF a1 g] login_terminal_state [OF a2 g]
    by (simp add: auth_defs)
qed

text \<open>
  C1 as stated fails in two ways. A failed login of a store that already holds a user ends
  with the error set and the user still there. And a sign-in that resolves with neither a
  user nor an error ends with no user and no error.
\<close>

theorem login_ends_outside_both_states:
  "user (st relogin_wrong_password) = Some jane \<and>
   error (st relogin_wrong_password) = Some ''Invalid login credentials'' \<and>
   user (st (snd (login answerless_backend ''jane@x.com'' ''secret1'' (initial_sys [])))) = None \<and>
   error (st (snd (login answerless_backend ''jane@x.com'' ''secret1'' (initial_sys [])))) = None"
  by (simp add: relogin_wrong_password_def answerless_backend_def auth_defs)

text \<open>
  C2. When the password sign-in resolves with an error whose message contains
  \<open>Email not confirmed\<close> and \<open>getUser\<close> then resolves with a user, \<open>login\<close> stores
  that user, runs \<open>fetchProfile\<close> on the store holding it, clears \<open>isLoading\<close> and
  reports no error.
\<close>

theorem login_unconfirmed_email_succeeds:
  assumes "signInWithPassword B (toLowerCase (trim email)) password (world s) = (Inr res, w1)"
    and "auth_err res = Some e"
    and "includes_str (auth_message e) ''Email not confirmed''"
    and "getUser B w1 = (Inr (Some u), w2)"
  shows "login B email password s =
           (None, set_store (\<lambda>t. t\<lparr>isLoading := False\<rparr>)
              (snd (fetchProfile B
                 \<lparr>st = (st s)\<lparr>isLoading := True, error := None, user := Some u\<rparr>,
                  world = w2,
                  calls = calls s @ [SignInWithPassword (toLowerCase (trim email)) password,
                                     GetUser]\<rparr>))) \<and>
         user (st (snd (login B email password s))) = Some u \<and>
         isLoading (st (snd (login B email password s))) = False \<and>
         error (st (snd (login B email password s))) = None"
proof -
  let ?s2 = "\<lparr>st = (st s)\<lparr>isLoading := True, error := None, user := Some u\<rparr>,
                  world = w2,
                  calls = calls s @ [SignInWithPassword (toLowerCase (trim email)) password,
                                     GetUser]\<rparr>"
  obtain t s3 where f: "fetchProfile B ?s2 = (t, s3)" by (cases "fetchProfile B ?s2")
  from fetchProfile_eqD [OF f] have t: "t = None" and u: "user (st s3) = Some u"
    and e: "error (st s3) = None" by simp_all
  have s2: "s\<lparr>world := w2,
             calls := calls s @ [SignInWithPassword (toLowerCase (trim email)) password,
                                 GetUser],
             st := (st s)\<lparr>isLoading := True, error := None, user := Some u\<rparr>\<rparr> = ?s2"
    by simp
  have eq: "login B email password s = (None, set_store (\<lambda>t. t\<lparr>isLoading := False\<rparr>) s3)"
    using assms f t
    by (simp add: login_def login_try_def catch_to_error_def await_def set_store_def
         store_user_and_fetch_def s2)
  show ?thesis using eq f u e by simp
qed

theorem login_unconfirmed_email_succeeds_witness:
  "login unconfirmed_backend ''jane@x.com'' ''secret1'' (initial_sys []) =
     (None,
      \<lparr>st = \<lparr>user = Some jane, profile = Some jane_profile, isLoading = False, error = None\<rparr>,
       world = [(''u1'', jane_profile)],
       calls = [SignInWithPassword ''jane@x.com'' ''secret1'', GetUser, SelectProfile ''u1'',
                InsertProfile ''u1'' (Some ''jane@x.com'') ''jane'', SelectProfile ''u1'']\<rparr>)"
proof -
  let ?res = "\<lparr>data_user = None, auth_err = Some (AuthError ''Email not confirmed'')\<rparr>"
  have h1: "signInWithPassword unconfirmed_backend (toLowerCase (trim ''jane@x.com'')) ''secret1''
              (world (initial_sys [])) = (Inr ?res, [])"
    by (simp add: unconfirmed_backend_def initial_sys_def)
  have h2: "auth_err ?res = Some (AuthError ''Email not confirmed'')" by simp
  have h3: "includes_str (auth_message (AuthError ''Email not confirmed'')) ''Email not confirmed''"
    by simp
  have h4: "getUser unconfirmed_backend [] = (Inr (Some jane), [])"
    by (simp add: unconfirmed_backend_def table_backend_def jane_def)
  show ?thesis
    using login_unconfirmed_email_succeeds [OF h1 h2 h3 h4]
    by (simp add: unconfirmed_backend_def auth_defs)
qed

section \<open>The profile fallback of signup\<close>


text \<open>
  C3. \<open>signup\<close> is meant to insert the profile by hand and fetch again when the first
  \<open>fetchProfile\<close> fails. Run against a backend whose profile query fails with an error
  other than no-rows, \<open>signup("Jane", "jane@x.com", "secret1")\<close> makes the sign-up call,
  waits, queries once and stops: no insert, no second fetch, no profile and no error.
\<close>

theorem signup_fallback_not_run:
  "snd (signup unreadable_backend ''Jane'' ''jane@x.com'' ''secret1'' (initial_sys [])) =
     \<lparr>st = \<lparr>user = Some (account_user ''jane@x.com'' (Some ''Jane'')), profile = None,
             isLoading = False, error = None\<rparr>,
      world = [],
      calls = [SignUp ''jane@x.com'' ''secret1'' ''Jane'', Delay 1000, SelectProfile ''u1'']\<rparr>"
  by (simp add: unreadable_backend_def auth_defs)

section \<open>The outcome of logout\<close>

text \<open>
  C5. When \<open>signOut\<close> resolves with an error, \<open>logout\<close> is meant to keep the session
  and report the error. It clears \<open>user\<close>, \<open>profile\<close> and \<open>error\<close> instead, as it
  does on success.
\<close>

theorem logout_ignores_returned_error:
  "snd (logout signout_error_backend signed_in) =
     \<lparr>st = \<lparr>user = None, profile = None, isLoading = False, error = None\<rparr>,
      world = [(''u1'', jane_profile)], calls = [SignOut]\<rparr>"
  by (simp add: signout_error_backend_def auth_defs)

text \<open>
  What \<open>logout\<close> does in general: a resolved sign-out clears the session, whatever it
  resolved with, and only a rejected one keeps it and sets \<open>error\<close>.
\<close>

lemma logout_resolved:
  "signOut B (world s) = (Inr res, w') \<Longrightarrow>
   st (snd (logout B s)) = (st s)\<lparr>user := None, profile := None, error := None\<rparr>"
  by (simp add: logout_def await_def set_store_def)

lemma logout_rejected:
  "signOut B (world s) = (Inl ex, w') \<Longrightarrow>
   st (snd (logout B s)) = (st s)\<lparr>error := Some (message_or ex ''Logout failed'')\<rparr>"
  by (simp add: logout_def await_def set_store_def)

section \<open>A profile only with a user\<close>














text \<open>
  The two halves of a suspended \<open>fetchProfile\<close>, run one right after the other, are
  \<open>fetchProfile\<close>; and an interleaved run made of whole operations is a sequential run.
\<close>

lemma fetchProfile_start_finish:
  "run_steps B [Start_fetchProfile, Finish_fetchProfile] (s, []) = (snd (fetchProfile B s), [])"
  by (simp add: fetchProfile_def fetchProfile_try_def split: option.splits prod.splits)

lemma run_steps_complete:
  "run_steps B (map Complete as) (s, pend) = (run_actions B as s, pend)"
  by (induction as arbitrary: s) simp_all


section \<open>Deduplication in the team roster\<close>

lemma map_get_map_set [simp]:
  "map_get (map_set k v m) k' = (if k' = k then Some v else map_get m k')"
  by (induction m) (auto simp: map_get_def)

lemma rows_of_append [simp]: "rows_of i (xs @ ys) = rows_of i xs @ rows_of i ys"
  by (induction xs) (auto split: option.splits)

lemma winner_none: "winner rs = None \<longleftrightarrow> rs = []"
  by (auto simp: winner_def split: list.splits)

lemma winner_snoc_privileged: "privileged r \<Longrightarrow> winner (rs @ [r]) = Some r"
  by (simp add: winner_def)

lemma winner_snoc_first: "winner ([] @ [r]) = Some r"
  by (simp add: winner_def)

lemma winner_snoc_later: "\<not> privileged r \<Longrightarrow> rs \<noteq> [] \<Longrightarrow> winner (rs @ [r]) = winner rs"
  by (cases rs) (simp_all add: winner_def)

lemma same_member_coin: "same_member (Some (row_member pm ru c)) (Some (pm, ru))"
  by (cases c) (simp_all add: same_member_def)

lemma same_member_none: "same_member None r \<longleftrightarrow> r = None"
  by (cases r) (auto simp: same_member_def)

lemma add_row_no_user: "pm_user pm = None \<Longrightarrow> add_row u rnd (m, n) pm = (m, n)"
  by (simp add: add_row_def)

lemma add_row_self:
  "pm_user pm = Some ru \<Longrightarrow> ru_id ru = user_id u \<Longrightarrow> add_row u rnd (m, n) pm = (m, n)"
  by (simp add: add_row_def)

lemma add_row_kept:
  "pm_user pm = Some ru \<Longrightarrow> ru_id ru \<noteq> user_id u \<Longrightarrow> map_get m (ru_id ru) \<noteq> None \<Longrightarrow>
   \<not> privileged (pm, ru) \<Longrightarrow> add_row u rnd (m, n) pm = (m, n)"
  by (simp add: add_row_def privileged_def)

lemma add_row_set:
  "pm_user pm = Some ru \<Longrightarrow> ru_id ru \<noteq> user_id u \<Longrightarrow>
   map_get m (ru_id ru) = None \<or> privileged (pm, ru) \<Longrightarrow>
   add_row u rnd (m, n) pm = (map_set (ru_id ru) (row_member pm ru (rnd n)) m, Suc n)"
  by (auto simp: add_row_def privileged_def)

lemma fold_rows_winner:
  assumes "i \<noteq> user_id u" and "map_get m0 i = None"
  shows "same_member (map_get (fst (foldl (add_row u rnd) (m0, n0) pms)) i) (winning_row i pms)"
proof (induction pms rule: rev_induct)
  case Nil
  show ?case using assms by (simp add: same_member_def winning_row_def winner_def)
next
  case (snoc pm pms)
  obtain m n where acc: "foldl (add_row u rnd) (m0, n0) pms = (m, n)"
    by (cases "foldl (add_row u rnd) (m0, n0) pms")
  from snoc acc have IH: "same_member (map_get m i) (winner (rows_of i pms))"
    by (simp add: winning_row_def)
  have step: "foldl (add_row u rnd) (m0, n0) (pms @ [pm]) = add_row u rnd (m, n) pm"
    using acc by simp
  show ?case
  proof (cases "pm_user pm")
    case None
    then show ?thesis using IH step by (simp add: add_row_no_user winning_row_def)
  next
    case (Some ru)
    show ?thesis
    proof (cases "ru_id ru = i")
      case False
      have other: "map_get (fst (add_row u rnd (m, n) pm)) i = map_get m i"
        using Some False by (auto simp: add_row_def)
      show ?thesis using Some False IH step other by (simp add: winning_row_def)
    next
      case True
      have rows: "rows_of i (pms @ [pm]) = rows_of i pms @ [(pm, ru)]"
        using Some True by simp
      have ne: "ru_id ru \<noteq> user_id u" using True assms by simp
      show ?thesis
      proof (cases "map_get m i = None \<or> privileged (pm, ru)")
        case True
        have w: "winner (rows_of i pms @ [(pm, ru)]) = Some (pm, ru)"
        proof (cases "privileged (pm, ru)")
          case True
          then show ?thesis by (rule winner_snoc_privileged)
        next
          case False
          with True have "map_get m i = None" by simp
          with IH have "rows_of i pms = []" by (simp add: same_member_none winner_none)
          then show ?thesis using winner_snoc_first [of "(pm, ru)"] by simp
        qed
        have "add_row u rnd (m, n) pm = (map_set (ru_id ru) (row_member pm ru (rnd n)) m, Suc n)"
          using Some ne True \<open>ru_id ru = i\<close> by (intro add_row_set) simp_all
        then show ?thesis
          using step rows w \<open>ru_id ru = i\<close>
          by (simp add: winning_row_def same_member_coin)
      next
        case False
        then have ex: "map_get m (ru_id ru) \<noteq> None" and np: "\<not> privileged (pm, ru)"
          using \<open>ru_id ru = i\<close> by simp_all
        from ex IH \<open>ru_id ru = i\<close> have "rows_of i pms \<noteq> []"
          by (auto simp: same_member_def winner_def)
        from winner_snoc_later [OF np this]
        have w: "winner (rows_of i pms @ [(pm, ru)]) = winner (rows_of i pms)" .
        have "add_row u rnd (m, n) pm = (m, n)"
          using Some ne ex np by (rule add_row_kept)
        then show ?thesis using step rows w IH by (simp add: winning_row_def)
      qed
    qed
  qed
qed

text \<open>With a user and an answered query, the component's list becomes the roster.\<close>

lemma fetchTeamMembers_sets_roster:
  "q_err res = None \<Longrightarrow>
   fetchTeamMembers (Some u) prof (Inr res) rnd cs = (roster u prof (q_data res) rnd, False)"
  by (simp add: fetchTeamMembers_def)

lemma fetchTeamMembers_no_user: "fetchTeamMembers None prof answer rnd cs = cs"
  by (simp add: fetchTeamMembers_def)

lemma initial_members_other:
  "i \<noteq> user_id u \<Longrightarrow> map_get (initial_members u prof) i = None"
  by (cases prof) (simp_all add: initial_members_def map_get_def)

text \<open>
  C7 (amended). For a member other than the current user, a row is written to the map when
  the map has no entry for the member yet or when the row's role is \<open>owner\<close> or
  \<open>admin\<close>. So an \<open>owner\<close> or \<open>admin\<close> row overwrites whatever entry is there, also
  an earlier \<open>owner\<close> or \<open>admin\<close> one, and any other row never overwrites: the
  member's entry comes from the last \<open>owner\<close>-or-\<open>admin\<close> row when there is one, and
  from the member's first row otherwise.
\<close>

theorem roster_last_privileged_row_wins:
  assumes "i \<noteq> user_id u"
  shows "same_member (map_get (build_members u prof rows rnd) i)
           (winning_row i (case rows of None \<Rightarrow> [] | Some pms \<Rightarrow> pms))"
proof (cases rows)
  case None
  then show ?thesis
    using initial_members_other [OF assms, of prof]
    by (simp add: build_members_def same_member_def winning_row_def winner_def)
next
  case (Some pms)
  then show ?thesis
    using fold_rows_winner [OF assms initial_members_other [OF assms]]
    by (simp add: build_members_def)
qed

lemma map_fst_map_set:
  "map fst (map_set k v m) = (if k \<in> set (map fst m) then map fst m else map fst m @ [k])"
  by (induction m) (auto simp: rev_image_eqI)

lemma distinct_map_set: "distinct (map fst m) \<Longrightarrow> distinct (map fst (map_set k v m))"
  by (simp add: map_fst_map_set)

lemma keys_match_map_set: "keys_match m \<Longrightarrow> tm_id v = k \<Longrightarrow> keys_match (map_set k v m)"
  by (induction m) (auto simp: keys_match_def)

lemma entries_for_key:
  "keys_match m \<Longrightarrow> distinct (map fst m) \<Longrightarrow>
   filter (\<lambda>v. tm_id v = k) (map_values m) = (case map_get m k of None \<Rightarrow> [] | Some v \<Rightarrow> [v])"
proof (induction m)
  case Nil
  show ?case by (simp add: map_values_def map_get_def)
next
  case (Cons kv m)
  obtain k' v' where kv: "kv = (k', v')" by (cases kv)
  from Cons.prems kv have id: "tm_id v' = k'" and km: "keys_match m"
    and fresh: "k' \<notin> set (map fst m)" and d: "distinct (map fst m)"
    by (simp_all add: keys_match_def)
  from Cons.IH [OF km d]
  have IH: "filter (\<lambda>v. tm_id v = k) (map snd m) = (case map_of m k of None \<Rightarrow> [] | Some v \<Rightarrow> [v])"
    by (simp add: map_values_def map_get_def)
  show ?case
  proof (cases "k' = k")
    case True
    with fresh have "map_of m k = None" by (simp add: map_of_eq_None_iff)
    with IH True id kv show ?thesis by (simp add: map_values_def map_get_def)
  next
    case False
    with IH id kv show ?thesis by (simp add: map_values_def map_get_def)
  qed
qed

lemma row_member_id [simp]: "tm_id (row_member pm ru c) = ru_id ru"
  by (simp add: row_member_def)

lemma add_row_invariant:
  assumes "keys_match m" and "distinct (map fst m)"
  shows "keys_match (fst (add_row u rnd (m, n) pm)) \<and>
         distinct (map fst (fst (add_row u rnd (m, n) pm))) \<and>
         map_get (fst (add_row u rnd (m, n) pm)) (user_id u) = map_get m (user_id u)"
  using assms
  by (auto simp: add_row_def keys_match_map_set distinct_map_set split: option.splits)

lemma fold_rows_invariant:
  assumes "keys_match m0" and "distinct (map fst m0)"
  shows "keys_match (fst (foldl (add_row u rnd) (m0, n0) pms)) \<and>
         distinct (map fst (fst (foldl (add_row u rnd) (m0, n0) pms))) \<and>
         map_get (fst (foldl (add_row u rnd) (m0, n0) pms)) (user_id u) = map_get m0 (user_id u)"
proof (induction pms rule: rev_induct)
  case Nil
  show ?case using assms by simp
next
  case (snoc pm pms)
  obtain m n where acc: "foldl (add_row u rnd) (m0, n0) pms = (m, n)"
    by (cases "foldl (add_row u rnd) (m0, n0) pms")
  with snoc have "keys_match m" and "distinct (map fst m)"
    and g: "map_get m (user_id u) = map_get m0 (user_id u)" by simp_all
  from add_row_invariant [OF this(1,2), of u rnd n pm] acc g show ?case by simp
qed

lemma initial_members_invariant:
  "keys_match (initial_members u prof) \<and> distinct (map fst (initial_members u prof))"
  by (cases prof) (simp_all add: initial_members_def keys_match_def current_user_member_def)

lemma build_members_invariant:
  "keys_match (build_members u prof rows rnd) \<and>
   distinct (map fst (build_members u prof rows rnd)) \<and>
   map_get (build_members u prof rows rnd) (user_id u) =
     map_get (initial_members u prof) (user_id u)"
proof (cases rows)
  case None
  then show ?thesis using initial_members_invariant [of u prof] by (simp add: build_members_def)
next
  case (Some pms)
  from initial_members_invariant [of u prof]
  have "keys_match (initial_members u prof)" and "distinct (map fst (initial_members u prof))"
    by simp_all
  from fold_rows_invariant [OF this, of u rnd 0 pms] Some show ?thesis
    by (simp add: build_members_def)
qed

lemma roster_entries_for_current_user:
  "filter (\<lambda>m. tm_id m = user_id u) (roster u prof rows rnd) =
     (case prof of None \<Rightarrow> [] | Some p \<Rightarrow> [current_user_member u p])"
proof -
  from build_members_invariant [of u prof rows rnd]
  have km: "keys_match (build_members u prof rows rnd)"
    and d: "distinct (map fst (build_members u prof rows rnd))"
    and g: "map_get (build_members u prof rows rnd) (user_id u) =
              map_get (initial_members u prof) (user_id u)" by simp_all
  have "map_get (initial_members u prof) (user_id u) = map_option (current_user_member u) prof"
    by (cases prof) (simp_all add: initial_members_def map_get_def)
  with entries_for_key [OF km d, of "user_id u"] g show ?thesis
    by (cases prof) (simp_all add: roster_def)
qed

lemmas roster_defs = roster_def build_members_def initial_members_def add_row_def
  map_values_def map_get_def current_user_member_def row_member_def membership_def
  user_one_def profile_one_def always_online_def

theorem roster_last_privileged_row_wins_witness:
  "''2'' \<noteq> user_id user_one \<and>
   winning_row ''2'' [membership ''2'' ''member'', membership ''2'' ''admin'',
                      membership ''2'' ''owner'', membership ''2'' ''member''] =
     Some (membership ''2'' ''owner'',
           \<lparr>ru_id = ''2'', ru_name = ''Member'', ru_email = ''m@x.com'', ru_avatar_url = None\<rparr>) \<and>
   map_option tm_role (map_get (build_members user_one (Some profile_one)
      (Some [membership ''2'' ''member'', membership ''2'' ''admin'',
             membership ''2'' ''owner'', membership ''2'' ''member'']) always_online) ''2'') =
     Some ''owner''"
proof -
  have h: "''2'' \<noteq> user_id user_one" by (simp add: user_one_def)
  show ?thesis
    using h roster_last_privileged_row_wins [OF h, of "Some profile_one"
      "Some [membership ''2'' ''member'', membership ''2'' ''admin'',
             membership ''2'' ''owner'', membership ''2'' ''member'']" always_online]
    by (simp add: roster_defs winning_row_def winner_def privileged_def same_member_def)
qed

text \<open>
  C7 as stated fails for an \<open>owner\<close> row followed by an \<open>admin\<close> row of the same
  member: the later row replaces the earlier one of higher rank.
\<close>

theorem roster_admin_overwrites_owner:
  "map_option tm_role
     (map_get (build_members user_one (Some profile_one)
        (Some [membership ''2'' ''owner'', membership ''2'' ''admin'']) always_online) ''2'') =
     Some ''admin''"
  by (simp add: roster_defs)

text \<open>
  C8 (amended). When the store's profile is non-null, the roster has exactly one entry with
  the current user's id, it is the one built from the profile, and its role is \<open>owner\<close>:
  no membership row with the same id replaces it.
\<close>

theorem current_user_is_owner_with_profile:
  "filter (\<lambda>m. tm_id m = user_id u) (roster u (Some p) rows rnd) = [current_user_member u p] \<and>
   tm_role (current_user_member u p) = ''owner''"
  by (simp add: roster_entries_for_current_user current_user_member_def)

theorem current_user_is_owner_with_profile_witness:
  "map tm_role (roster user_one (Some profile_one)
      (Some [membership ''1'' ''member'', membership ''1'' ''admin'']) always_online) = [''owner'']"
  using current_user_is_owner_with_profile [of user_one profile_one
     "Some [membership ''1'' ''member'', membership ''1'' ''admin'']" always_online]
  by (simp add: roster_defs)

text \<open>
  C8 as stated fails when the profile is null: with the rows \<open>member\<close> and \<open>admin\<close> of
  the current user's own id the roster is empty.
\<close>

theorem roster_without_profile_lacks_current_user:
  "roster user_one None (Some [membership ''1'' ''member'', membership ''1'' ''admin''])
     always_online = []"
  by (simp add: roster_defs)

text \<open>
  C10. When the store's profile is null, the roster has no entry with the current user's
  id, whatever the membership rows are.
\<close>

theorem no_entry_without_profile:
  "filter (\<lambda>m. tm_id m = user_id u) (roster u None rows rnd) = []"
  by (simp add: roster_entries_for_current_user)

theorem no_entry_without_profile_witness:
  "roster user_one None (Some [membership ''1'' ''admin'', membership ''2'' ''member''])
     always_online =
     [row_member (membership ''2'' ''member'')
        \<lparr>ru_id = ''2'', ru_name = ''Member'', ru_email = ''m@x.com'', ru_avatar_url = None\<rparr> True]"
  using no_entry_without_profile [of user_one
     "Some [membership ''1'' ''admin'', membership ''2'' ''member'']" always_online]
  by (simp add: roster_defs)

end
